theory Spec2Isabelle
  imports Complex_Main "HOL-Library.Char_ord" "HOL-Library.List_Lexorder" "HOL-Library.Product_Lexorder"
begin

section \<open>The fixture \<^verbatim>\<open>examples/duplicates.py\<close>\<close>

text \<open>
  The repository's only source file is a Python script written to contain repeated
  blocks of lines. It is data for a duplicate detector, so it is embedded as the data it
  is: the list of its 53 lines, in file order, each line as the string of its characters
  (indentation included, line terminators excluded).
\<close>

definition duplicates_py :: "string list" where
  \<open>duplicates_py =
   [''#!/usr/bin/env python3'',
    ''"""'',
    ''Example script that contains multi-line duplications.'',
    ''This is to demonstrate the Textalyzer duplication detection.'',
    ''"""'',
    '''',
    ''def function_one():'',
    ''    # This block will be repeated in other functions'',
    ''    print("This is the first line in a block")'',
    ''    print("This is the second line in a block")'',
    ''    print("This is the third line in a block")'',
    ''    '',
    ''    # This is unique to function_one'',
    ''    print("This line only appears in function_one")'',
    ''    '',
    ''    # This block is repeated in all functions'',
    ''    return "All functions return this exact string"'',
    '''',
    ''def function_two():'',
    ''    # Some unique code to function_two'',
    ''    print("Starting function_two")'',
    ''    '',
    ''    # This block will be repeated in other functions'',
    ''    print("This is the first line in a block")'',
    ''    print("This is the second line in a block")'',
    ''    print("This is the third line in a block")'',
    ''    '',
    ''    # This block is repeated in all functions'',
    ''    return "All functions return this exact string"'',
    '''',
    ''def function_three():'',
    ''    # Unique section'',
    ''    x = 10'',
    ''    y = 20'',
    ''    z = x + y'',
    ''    print(f"The sum is {z}")'',
    ''    '',
    ''    # Another common block with slight variation'',
    ''    print("This is the first line in a block")'',
    ''    print("This is the second line in a block")'',
    ''    print("This line is different in function_three")'',
    ''    '',
    ''    # This block is repeated in all functions'',
    ''    return "All functions return this exact string"'',
    '''',
    ''# All of these functions are called from main'',
    ''def main():'',
    ''    function_one()'',
    ''    function_two()'',
    ''    function_three()'',
    '''',
    ''if __name__ == "__main__":'',
    ''    main()'']\<close>

text \<open>
  Lines are numbered from 1, as an editor shows them. A line is blank when it holds
  nothing but spaces and tabs, and indented when it starts with a space: in this file
  the body of a \<^verbatim>\<open>def\<close> is exactly the run of blank or indented lines that follows
  its header.
\<close>

definition numbered :: "(nat \<times> string) list" where
  "numbered = zip [1 ..< Suc (length duplicates_py)] duplicates_py"

definition is_blank :: "string \<Rightarrow> bool" where
  "is_blank l = list_all (\<lambda>c. c = CHR '' '' \<or> c = CHR 0x09) l"

definition is_indented :: "string \<Rightarrow> bool" where
  "is_indented l = (case l of [] \<Rightarrow> False | c # _ \<Rightarrow> c = CHR '' '')"

text \<open>
  The non-blank lines of the file with their numbers: what a line-oriented detector that
  ignores blank lines and keeps comment lines sees.
\<close>

definition nonblank :: "(nat \<times> string) list" where
  "nonblank = filter (\<lambda>(n, l). \<not> is_blank l) numbered"

text \<open>
  \<open>block n len\<close> is the run of \<open>len\<close> consecutive non-blank lines that starts at
  line \<open>n\<close> (at the first non-blank line from \<open>n\<close> on).
\<close>

definition block :: "nat \<Rightarrow> nat \<Rightarrow> (nat \<times> string) list" where
  "block n len = take len (dropWhile (\<lambda>(m, l). m < n) nonblank)"

text \<open>
  The non-blank lines of the body of the function \<open>name\<close>: everything after the
  header \<^verbatim>\<open>def name():\<close> up to the next line that is neither blank nor indented.
\<close>

definition body_of :: "string \<Rightarrow> (nat \<times> string) list" where
  "body_of name =
     filter (\<lambda>(n, l). \<not> is_blank l)
       (takeWhile (\<lambda>(n, l). is_blank l \<or> is_indented l)
          (drop 1 (dropWhile (\<lambda>(n, l). l \<noteq> ''def '' @ name @ ''():'') numbered)))"

definition last_lines :: "nat \<Rightarrow> 'a list \<Rightarrow> 'a list" where
  "last_lines k xs = drop (length xs - k) xs"

text \<open>
  How many positions of two blocks hold the same line, and how many distinct lines of
  the first block occur anywhere in the second.
\<close>

definition same_at :: "string list \<Rightarrow> string list \<Rightarrow> nat" where
  "same_at xs ys = length (filter (\<lambda>(x, y). x = y) (zip xs ys))"

definition shared :: "string list \<Rightarrow> string list \<Rightarrow> nat" where
  "shared xs ys = length (filter (\<lambda>x. List.member ys x) (remdups xs))"


section \<open>The duplication-detection engine\<close>

text \<open>
  The fixture is input for a duplicate detector whose code is not among the sources.
  What follows embeds that engine as the specification describes it, stage by stage:
  Normalizer, Block Indexer, Match Aggregator, Near-Duplicate Scorer, and the ordered
  report. Hash values are represented by the content they summarise, so two lines or two
  windows have the same hash exactly when they have the same normalized text.
\<close>

subsection \<open>Data model\<close>

text \<open>Modelled from the spec: the two error kinds of the engine's error handling design.\<close>

datatype error = InvalidConfiguration | MalformedInput

text \<open>Modelled from the spec: the kind of a MatchGroup.\<close>

datatype kind = Exact | Near

text \<open>
  Modelled from the spec: the configuration object of the external interface, with the
  recognized options; the comment-prefix rules that go with \<open>stripComments\<close> are the
  list \<open>commentPrefixes\<close>, and a disabled \<open>nearThreshold\<close> or an absent
  \<open>maxReportedGroups\<close> is \<open>None\<close>.
\<close>

record config =
  minBlockSize :: int
  caseSensitive :: bool
  ignoreBlankLines :: bool
  stripComments :: bool
  commentPrefixes :: "string list"
  nearThreshold :: "rat option"
  maxReportedGroups :: "nat option"

text \<open>Modelled from the spec: the defaults the external interface gives for each option.\<close>

definition default_config :: config where
  "default_config =
     \<lparr>minBlockSize = 3, caseSensitive = True, ignoreBlankLines = True,
      stripComments = False, commentPrefixes = [], nearThreshold = Some (8 / 10),
      maxReportedGroups = None\<rparr>"

text \<open>
  Modelled from the spec: the configurations that are not an \<open>InvalidConfiguration\<close>:
  \<open>minBlockSize\<close> at least 2, and \<open>nearThreshold\<close> disabled or within \<open>[0, 1]\<close>.
\<close>

definition valid_config :: "config \<Rightarrow> bool" where
  "valid_config cfg =
     (2 \<le> minBlockSize cfg \<and>
      (case nearThreshold cfg of None \<Rightarrow> True | Some t \<Rightarrow> 0 \<le> t \<and> t \<le> 1))"

text \<open>
  Modelled from the spec: a SourceUnit, an identifier and the ordered sequence of its raw
  lines. A line that is null or undefined where text was expected is \<open>None\<close>.
\<close>

record source_unit =
  unit_identifier :: string
  raw_lines :: "string option list"

text \<open>
  Modelled from the spec: a NormalizedLine, with its original 1-based line number, the
  identifier of its SourceUnit, its normalized token string, and the tag that excludes it
  from windowing.
\<close>

record normalized_line =
  line_no :: nat
  unit_id :: string
  token :: string
  ignorable :: bool

text \<open>
  Modelled from the spec: a Window, a contiguous span of NormalizedLines of one
  SourceUnit with its start line, end line (inclusive) and combined fingerprint. The
  window also holds its position (number of the unit in the input, offset among the
  unit's lines that are not ignorable), the lines it covers and the lines that follow it
  in the unit, which extension reads.
\<close>

record window =
  win_unit :: string
  win_start :: nat
  win_end :: nat
  win_fingerprint :: string
  win_pos :: "nat \<times> nat"
  win_lines :: "normalized_line list"
  win_rest :: "normalized_line list"

text \<open>Modelled from the spec: a member of a MatchGroup, \<open>{SourceUnit id, start line, end line}\<close>.\<close>

record span =
  span_unit :: string
  start_line :: nat
  end_line :: nat

text \<open>
  Modelled from the spec: a MatchGroup, with its kind, its ordered members, the
  representative text (the normalized lines of the first member) and the similarity
  score (1 for an exact group).
\<close>

record match_group =
  kind :: kind
  members :: "span list"
  representative :: "string list"
  similarity :: rat

text \<open>
  Modelled from the spec: the engine's output, the ordered sequence of MatchGroups and the
  mark that \<open>maxReportedGroups\<close> cut it.
\<close>

record report =
  groups :: "match_group list"
  truncated :: bool

subsection \<open>Normalizer\<close>

text \<open>Modelled from the spec: the characters the Normalizer treats as whitespace.\<close>

definition is_space :: "char \<Rightarrow> bool" where
  "is_space c = (c = CHR '' '' \<or> c = CHR 0x09 \<or> c = CHR 0x0A \<or> c = CHR 0x0D)"

text \<open>
  Modelled from the spec: whitespace collapsing. Every run of whitespace becomes one
  space; the flag says that the character before was whitespace, so starting with
  \<open>True\<close> drops the leading run.
\<close>

fun collapse :: "bool \<Rightarrow> string \<Rightarrow> string" where
  "collapse prev [] = []"
| "collapse prev (c # cs) =
     (if is_space c then (if prev then collapse True cs else CHR '' '' # collapse True cs)
      else c # collapse False cs)"

text \<open>Modelled from the spec: stripping, the collapsed line without leading or trailing whitespace.\<close>

definition strip_collapse :: "string \<Rightarrow> string" where
  "strip_collapse s = rev (dropWhile is_space (rev (collapse True s)))"

text \<open>Modelled from the spec: case folding of one character, used when \<open>caseSensitive\<close> is off.\<close>

definition to_lower :: "char \<Rightarrow> char" where
  "to_lower c =
     (let n = (of_char c :: nat) in if 65 \<le> n \<and> n \<le> 90 then char_of (n + 32) else c)"

text \<open>
  Modelled from the spec: comment stripping under the comment-prefix rules, which cuts
  the line where the first comment prefix starts.
\<close>

fun strip_comment :: "string list \<Rightarrow> string \<Rightarrow> string" where
  "strip_comment ps [] = []"
| "strip_comment ps (c # cs) =
     (if list_ex (\<lambda>p. p \<noteq> [] \<and> take (length p) (c # cs) = p) ps then []
      else c # strip_comment ps cs)"

text \<open>
  Modelled from the spec: the token string of a raw line, optionally comment-stripped,
  then stripped and whitespace-collapsed, then case-folded unless \<open>caseSensitive\<close>.
\<close>

definition normalize_text :: "config \<Rightarrow> string \<Rightarrow> string" where
  "normalize_text cfg s =
     (let a = (if stripComments cfg then strip_comment (commentPrefixes cfg) s else s);
          b = strip_collapse a
      in if caseSensitive cfg then b else map to_lower b)"

text \<open>
  Modelled from the spec: the Normalizer's contract for one line. A line that becomes
  empty is tagged ignorable (when blank lines are ignored); it keeps its line number.
\<close>

definition normalize_line :: "config \<Rightarrow> string \<Rightarrow> nat \<Rightarrow> string \<Rightarrow> normalized_line" where
  "normalize_line cfg uid n s =
     (let t = normalize_text cfg s
      in \<lparr>line_no = n, unit_id = uid, token = t,
          ignorable = (ignoreBlankLines cfg \<and> t = [])\<rparr>)"

text \<open>
  Modelled from the spec: normalizing the lines of one SourceUnit from line number \<open>n\<close>
  on. A null line is \<open>MalformedInput\<close>, and nothing is returned for the unit.
\<close>

fun normalize_lines :: "config \<Rightarrow> string \<Rightarrow> nat \<Rightarrow> string option list \<Rightarrow> error + normalized_line list" where
  "normalize_lines cfg uid n [] = Inr []"
| "normalize_lines cfg uid n (None # ls) = Inl MalformedInput"
| "normalize_lines cfg uid n (Some l # ls) =
     (case normalize_lines cfg uid (Suc n) ls of
        Inl e \<Rightarrow> Inl e
      | Inr r \<Rightarrow> Inr (normalize_line cfg uid n l # r))"

text \<open>Modelled from the spec: the NormalizedLines of a SourceUnit, numbered from 1.\<close>

definition normalize_unit :: "config \<Rightarrow> source_unit \<Rightarrow> error + normalized_line list" where
  "normalize_unit cfg u = normalize_lines cfg (unit_identifier u) 1 (raw_lines u)"

text \<open>
  Modelled from the spec: the Normalizing stage over the ordered collection of
  SourceUnits. The first malformed unit aborts it.
\<close>

fun normalize_all :: "config \<Rightarrow> source_unit list \<Rightarrow> error + (string \<times> normalized_line list) list" where
  "normalize_all cfg [] = Inr []"
| "normalize_all cfg (u # us) =
     (case normalize_unit cfg u of
        Inl e \<Rightarrow> Inl e
      | Inr nls \<Rightarrow>
          (case normalize_all cfg us of
             Inl e \<Rightarrow> Inl e
           | Inr r \<Rightarrow> Inr ((unit_identifier u, nls) # r)))"

subsection \<open>Block Indexer\<close>

text \<open>Modelled from the spec: the lines of a unit that take part in windowing.\<close>

definition countable_lines :: "normalized_line list \<Rightarrow> normalized_line list" where
  "countable_lines nls = filter (\<lambda>l. \<not> ignorable l) nls"

text \<open>
  Modelled from the spec: the fingerprint of a window, the hash of its concatenated token
  strings; each token is closed by a line feed, which no token contains.
\<close>

definition fingerprint :: "normalized_line list \<Rightarrow> string" where
  "fingerprint ls = concat (map (\<lambda>l. token l @ [CHR 0x0A]) ls)"

text \<open>Modelled from the spec: the start line of a run of lines, its first line's number.\<close>

definition first_line :: "normalized_line list \<Rightarrow> nat" where
  "first_line ls = (case ls of [] \<Rightarrow> 0 | l # _ \<Rightarrow> line_no l)"

text \<open>Modelled from the spec: the end line (inclusive) of a run of lines, its last line's number.\<close>

definition final_line :: "normalized_line list \<Rightarrow> nat" where
  "final_line ls = (case rev ls of [] \<Rightarrow> 0 | l # _ \<Rightarrow> line_no l)"

text \<open>
  Modelled from the spec: the Window of the unit \<open>uid\<close> (number \<open>ui\<close> of the input) that
  covers the lines \<open>ls\<close> at offset \<open>i\<close> and is followed by \<open>rest\<close>.
\<close>

definition make_window :: "string \<Rightarrow> nat \<Rightarrow> nat \<Rightarrow> normalized_line list \<Rightarrow> normalized_line list \<Rightarrow> window" where
  "make_window uid ui i ls rest =
     \<lparr>win_unit = uid, win_start = first_line ls, win_end = final_line ls,
      win_fingerprint = fingerprint ls, win_pos = (ui, i), win_lines = ls,
      win_rest = rest\<rparr>"

text \<open>
  Modelled from the spec: the Block Indexer for one SourceUnit. It slides a window of
  \<open>k\<close> lines one line at a time over the lines that are not ignorable, so an ignorable
  line is skipped and does not break a block. A unit with fewer than \<open>k\<close> such lines has
  no offset to start a window at.
\<close>

definition windows_of :: "nat \<Rightarrow> nat \<Rightarrow> string \<Rightarrow> normalized_line list \<Rightarrow> window list" where
  "windows_of k ui uid nls =
     (let ls = countable_lines nls
      in map (\<lambda>i. make_window uid ui i (take k (drop i ls)) (drop (i + k) ls))
           [0 ..< Suc (length ls) - k])"

text \<open>Modelled from the spec: the Indexing stage, the windows of every unit in input order.\<close>

definition index_units :: "nat \<Rightarrow> (string \<times> normalized_line list) list \<Rightarrow> window list" where
  "index_units k ns =
     concat (map (\<lambda>(ui, (uid, nls)). windows_of k ui uid nls) (enumerate 0 ns))"

subsection \<open>Match Aggregator\<close>

text \<open>
  Modelled from the spec: the pairs of members the Aggregator looks at, every two
  windows in the order the Indexer produced them.
\<close>

fun ordered_pairs :: "'a list \<Rightarrow> ('a \<times> 'a) list" where
  "ordered_pairs [] = []"
| "ordered_pairs (x # xs) = map (Pair x) xs @ ordered_pairs xs"

text \<open>
  Modelled from the spec: grouping by fingerprint. Two windows are members of one group
  when their fingerprints are identical; a pair whose members originate from the same
  start position is discarded.
\<close>

definition same_group :: "window \<Rightarrow> window \<Rightarrow> bool" where
  "same_group a b = (win_fingerprint a = win_fingerprint b \<and> win_pos a \<noteq> win_pos b)"

text \<open>
  Modelled from the spec: extension. Both windows grow by one line simultaneously while
  the lines remain equal; growth stops at the first mismatch or at the input boundary.
  The result is the number of lines gained.
\<close>

fun grow :: "normalized_line list \<Rightarrow> normalized_line list \<Rightarrow> nat" where
  "grow (x # xs) (y # ys) = (if token x = token y then Suc (grow xs ys) else 0)"
| "grow xs ys = 0"

text \<open>Modelled from the spec: the member \<open>{SourceUnit id, start line, end line}\<close> for a run of lines.\<close>

definition span_of :: "string \<Rightarrow> normalized_line list \<Rightarrow> span" where
  "span_of uid ls = \<lparr>span_unit = uid, start_line = first_line ls, end_line = final_line ls\<rparr>"

text \<open>
  Modelled from the spec: the Exact MatchGroup of a pair of members after extension,
  with the text of the first member as representative and similarity 1.
\<close>

definition extend_pair :: "window \<Rightarrow> window \<Rightarrow> match_group" where
  "extend_pair a b =
     (let n = grow (win_rest a) (win_rest b);
          la = win_lines a @ take n (win_rest a);
          lb = win_lines b @ take n (win_rest b)
      in \<lparr>kind = Exact, members = [span_of (win_unit a) la, span_of (win_unit b) lb],
          representative = map token la, similarity = 1\<rparr>)"

text \<open>
  Modelled from the spec: containment. \<open>covers h g\<close> says that every member of \<open>g\<close>
  lies, in the same unit, within the corresponding member of \<open>h\<close>.
\<close>

definition covers :: "match_group \<Rightarrow> match_group \<Rightarrow> bool" where
  "covers h g =
     list_all2 (\<lambda>m n. span_unit m = span_unit n \<and> start_line m \<le> start_line n \<and>
                     end_line n \<le> end_line m)
       (members h) (members g)"

text \<open>
  Modelled from the spec: deduplication. A match that is fully contained within an
  already-reported match is dropped; \<open>reported\<close> holds the matches kept so far.
\<close>

fun deduplicate :: "match_group list \<Rightarrow> match_group list \<Rightarrow> match_group list" where
  "deduplicate reported [] = reported"
| "deduplicate reported (g # gs) =
     (if list_ex (\<lambda>h. covers h g) reported then deduplicate reported gs
      else deduplicate (reported @ [g]) gs)"

text \<open>Modelled from the spec: the Aggregating stage up to deduplication.\<close>

definition aggregate :: "window list \<Rightarrow> match_group list" where
  "aggregate ws =
     deduplicate []
       (map (\<lambda>(a, b). extend_pair a b) (filter (\<lambda>(a, b). same_group a b) (ordered_pairs ws)))"

text \<open>
  Modelled from the spec: the bound \<open>maxReportedGroups\<close>. Once the cap is reached the
  engine stops aggregating further groups and marks the output as truncated.
\<close>

definition cap_groups :: "nat option \<Rightarrow> match_group list \<Rightarrow> match_group list \<times> bool" where
  "cap_groups cap gs =
     (case cap of None \<Rightarrow> (gs, False) | Some n \<Rightarrow> (take n gs, n < length gs))"

subsection \<open>Near-Duplicate Scorer\<close>

text \<open>
  Modelled from the spec: one similarity metric, the share of positions at which two
  windows hold the same line. The specification leaves the metric to the implementer,
  so the engine below takes the metric as an argument.
\<close>

definition line_overlap :: "string list \<Rightarrow> string list \<Rightarrow> rat" where
  "line_overlap xs ys =
     (if xs = [] \<and> ys = [] then 1
      else of_nat (length (filter (\<lambda>(x, y). x = y) (zip xs ys))) /
           of_nat (max (length xs) (length ys)))"

text \<open>Modelled from the spec: a similarity score is normalized to \<open>[0, 1]\<close>.\<close>

definition clamp01 :: "rat \<Rightarrow> rat" where
  "clamp01 r = max 0 (min 1 r)"

text \<open>
  Modelled from the spec: the Near MatchGroup of two windows, with the score the metric
  \<open>sim\<close> gives them.
\<close>

definition near_group :: "(string list \<Rightarrow> string list \<Rightarrow> rat) \<Rightarrow> window \<Rightarrow> window \<Rightarrow> match_group" where
  "near_group sim a b =
     \<lparr>kind = Near,
      members = [span_of (win_unit a) (win_lines a), span_of (win_unit b) (win_lines b)],
      representative = map token (win_lines a),
      similarity = clamp01 (sim (map token (win_lines a)) (map token (win_lines b)))\<rparr>"

text \<open>
  Modelled from the spec: the Scoring stage. It is optional: with \<open>nearThreshold\<close>
  disabled nothing is scored. Otherwise the windows that failed to fingerprint-match
  exactly are scored in pairs, and those meeting or exceeding the threshold are emitted as
  Near MatchGroups, separately from the Exact groups.
\<close>

definition score :: "(string list \<Rightarrow> string list \<Rightarrow> rat) \<Rightarrow> rat option \<Rightarrow> window list \<Rightarrow> match_group list" where
  "score sim threshold ws =
     (case threshold of
        None \<Rightarrow> []
      | Some t \<Rightarrow>
          filter (\<lambda>g. t \<le> similarity g)
            (map (\<lambda>(a, b). near_group sim a b)
               (filter (\<lambda>(a, b). win_fingerprint a \<noteq> win_fingerprint b) (ordered_pairs ws))))"

subsection \<open>Ordering and the analysis run\<close>

text \<open>Modelled from the spec: the match length of a group, the number of lines of its text.\<close>

definition match_length :: "match_group \<Rightarrow> nat" where
  "match_length g = length (representative g)"

text \<open>Modelled from the spec: the SourceUnit identifier of a group's first occurrence.\<close>

definition first_unit :: "match_group \<Rightarrow> string" where
  "first_unit g = (case members g of [] \<Rightarrow> [] | m # _ \<Rightarrow> span_unit m)"

text \<open>Modelled from the spec: the start line of a group's first occurrence.\<close>

definition first_start :: "match_group \<Rightarrow> nat" where
  "first_start g = (case members g of [] \<Rightarrow> 0 | m # _ \<Rightarrow> start_line m)"

text \<open>
  Modelled from the spec: the order of the report, first by descending match length, then
  by ascending first-occurrence SourceUnit identifier, then by ascending start line.
  \<open>precedes g h\<close> says that \<open>g\<close> may stand before \<open>h\<close>.
\<close>

definition precedes :: "match_group \<Rightarrow> match_group \<Rightarrow> bool" where
  "precedes g h =
     (match_length h < match_length g \<or>
      (match_length g = match_length h \<and>
       (first_unit g < first_unit h \<or>
        (first_unit g = first_unit h \<and> first_start g \<le> first_start h))))"

text \<open>Modelled from the spec: the sort key that realises this order.\<close>

definition group_key :: "match_group \<Rightarrow> int \<times> string \<times> nat" where
  "group_key g = (- int (match_length g), first_unit g, first_start g)"

text \<open>Modelled from the spec: the ordering step, a stable sort on the key.\<close>

definition order_groups :: "match_group list \<Rightarrow> match_group list" where
  "order_groups gs = sort_key group_key gs"

text \<open>
  Modelled from the spec: the groups of one run in the order the stages find them, the
  Exact groups of the Aggregator (up to the cap) and then the Near groups of the Scorer,
  with the truncation mark.
\<close>

definition found_groups :: "(string list \<Rightarrow> string list \<Rightarrow> rat) \<Rightarrow> config \<Rightarrow> (string \<times> normalized_line list) list \<Rightarrow> match_group list \<times> bool" where
  "found_groups sim cfg ns =
     (let ws = index_units (nat (minBlockSize cfg)) ns;
          (ex, tr) = cap_groups (maxReportedGroups cfg) (aggregate ws)
      in (ex @ score sim (nearThreshold cfg) ws, tr))"

text \<open>
  Modelled from the spec: one analysis run, Idle, Normalizing, Indexing, Aggregating,
  optional Scoring, Done. An invalid configuration fails fast before any SourceUnit is
  processed; malformed input aborts the remaining stages; otherwise the ordered report is
  returned.
\<close>

definition analyse :: "(string list \<Rightarrow> string list \<Rightarrow> rat) \<Rightarrow> config \<Rightarrow> source_unit list \<Rightarrow> error + report" where
  "analyse sim cfg us =
     (if \<not> valid_config cfg then Inl InvalidConfiguration
      else case normalize_all cfg us of
             Inl e \<Rightarrow> Inl e
           | Inr ns \<Rightarrow>
               (let (gs, tr) = found_groups sim cfg ns
                in Inr \<lparr>groups = order_groups gs, truncated = tr\<rparr>))"

text \<open>A SourceUnit made of a name and plain lines of text, none of them null.\<close>

definition unit_of :: "string \<Rightarrow> string list \<Rightarrow> source_unit" where
  "unit_of name ls = \<lparr>unit_identifier = name, raw_lines = map Some ls\<rparr>"


text \<open>
  Modelled from the spec: a SourceUnit shorter than \<open>minBlockSize\<close> normalizable lines,
  that is, a well-formed unit with fewer lines that are not ignorable.
\<close>

definition too_short :: "config \<Rightarrow> source_unit \<Rightarrow> bool" where
  "too_short cfg u =
     (case normalize_unit cfg u of
        Inl e \<Rightarrow> False
      | Inr nls \<Rightarrow> int (length (countable_lines nls)) < minBlockSize cfg)"

text \<open>Modelled from the spec: the empty result, no MatchGroup and no truncation.\<close>

definition empty_report :: report where
  "empty_report = \<lparr>groups = [], truncated = False\<rparr>"

subsection \<open>Sample inputs\<close>

text \<open>
  Four small SourceUnits on which the properties below are evaluated: \<open>m\<close> repeats a
  block of three lines, \<open>a\<close> has that block, a blank line and a block of four, \<open>b\<close> is
  that block of four, and \<open>c\<close> has two lines only. A fifth unit has a null line.
\<close>

definition sample_units :: "source_unit list" where
  "sample_units =
     [unit_of ''m'' [''x'', ''y'', ''z'', ''n'', ''x'', ''y'', ''z''],
      unit_of ''a'' [''x'', ''y'', ''z'', '''', ''p'', ''q'', ''r'', ''s''],
      unit_of ''b'' [''p'', ''q'', ''r'', ''s''],
      unit_of ''c'' [''x'', ''y'']]"

definition null_unit :: source_unit where
  "null_unit = \<lparr>unit_identifier = ''d'', raw_lines = [Some ''x'', None, Some ''y'']\<rparr>"

text \<open>The report the engine gives for the four sample units under the default configuration.\<close>

definition sample_report :: report where
  "sample_report =
     \<lparr>groups =
        [\<lparr>kind = Exact,
          members = [\<lparr>span_unit = ''a'', start_line = 5, end_line = 8\<rparr>,
                     \<lparr>span_unit = ''b'', start_line = 1, end_line = 4\<rparr>],
          representative = [''p'', ''q'', ''r'', ''s''], similarity = 1\<rparr>,
         \<lparr>kind = Exact,
          members = [\<lparr>span_unit = ''m'', start_line = 1, end_line = 3\<rparr>,
                     \<lparr>span_unit = ''m'', start_line = 5, end_line = 7\<rparr>],
          representative = [''x'', ''y'', ''z''], similarity = 1\<rparr>,
         \<lparr>kind = Exact,
          members = [\<lparr>span_unit = ''m'', start_line = 1, end_line = 3\<rparr>,
                     \<lparr>span_unit = ''a'', start_line = 1, end_line = 3\<rparr>],
          representative = [''x'', ''y'', ''z''], similarity = 1\<rparr>,
         \<lparr>kind = Exact,
          members = [\<lparr>span_unit = ''m'', start_line = 5, end_line = 7\<rparr>,
                     \<lparr>span_unit = ''a'', start_line = 1, end_line = 3\<rparr>],
          representative = [''x'', ''y'', ''z''], similarity = 1\<rparr>],
      truncated = False\<rparr>"

section \<open>Properties of the engine\<close>

subsection \<open>Malformed input\<close>

lemma normalize_lines_null:
  "None \<in> set ls \<Longrightarrow> normalize_lines cfg uid n ls = Inl MalformedInput"
proof (induction ls arbitrary: n)
  case Nil
  then show ?case by simp
next
  case (Cons l ls)
  show ?case
  proof (cases l)
    case None
    then show ?thesis by simp
  next
    case (Some s)
    with Cons.prems have "None \<in> set ls" by simp
    then have "normalize_lines cfg uid (Suc n) ls = Inl MalformedInput"
      by (rule Cons.IH)
    with Some show ?thesis by simp
  qed
qed

lemma normalize_lines_error:
  "normalize_lines cfg uid n ls = Inl e \<Longrightarrow> e = MalformedInput"
  by (induction cfg uid n ls rule: normalize_lines.induct) (auto split: sum.splits)

lemma normalize_all_error:
  "normalize_all cfg us = Inl e \<Longrightarrow> e = MalformedInput"
  by (induction us) (auto simp: normalize_unit_def split: sum.splits dest: normalize_lines_error)

lemma normalize_all_null:
  "u \<in> set us \<Longrightarrow> None \<in> set (raw_lines u) \<Longrightarrow> normalize_all cfg us = Inl MalformedInput"
proof (induction us)
  case Nil
  then show ?case by simp
next
  case (Cons v vs)
  show ?case
  proof (cases "normalize_unit cfg v")
    case (Inl e)
    then have "e = MalformedInput"
      by (auto simp: normalize_unit_def dest: normalize_lines_error)
    with Inl show ?thesis by simp
  next
    case (Inr nls)
    have "u \<noteq> v"
    proof
      assume "u = v"
      with Cons.prems(2) have "normalize_unit cfg v = Inl MalformedInput"
        by (simp add: normalize_unit_def normalize_lines_null)
      with Inr show False by simp
    qed
    with Cons.prems have "u \<in> set vs" by simp
    then have "normalize_all cfg vs = Inl MalformedInput"
      using Cons.prems(2) by (rule Cons.IH)
    with Inr show ?thesis by simp
  qed
qed

subsection \<open>Windows and where the members of a group come from\<close>

lemma windows_of_short:
  "length (countable_lines nls) < k \<Longrightarrow> windows_of k ui uid nls = []"
  by (simp add: windows_of_def Let_def)

lemma windows_of_unit: "w \<in> set (windows_of k ui uid nls) \<Longrightarrow> win_unit w = uid"
  by (auto simp: windows_of_def make_window_def Let_def)

lemma index_units_source:
  assumes "w \<in> set (index_units k ns)"
  shows "\<exists>ui uid nls. (uid, nls) \<in> set ns \<and> w \<in> set (windows_of k ui uid nls)"
proof -
  from assms obtain ui uid nls
    where e: "(ui, (uid, nls)) \<in> set (enumerate 0 ns)" and w: "w \<in> set (windows_of k ui uid nls)"
    by (auto simp: index_units_def)
  from e have "ui < length ns \<and> ns ! ui = (uid, nls)"
    by (simp add: in_set_enumerate_eq)
  then have "(uid, nls) \<in> set ns"
    by (metis nth_mem)
  with w show ?thesis by blast
qed

lemma index_units_unit:
  assumes "w \<in> set (index_units k ns)"
  shows "\<exists>nls. (win_unit w, nls) \<in> set ns \<and> k \<le> length (countable_lines nls)"
proof -
  from index_units_source [OF assms] obtain ui uid nls
    where m: "(uid, nls) \<in> set ns" and w: "w \<in> set (windows_of k ui uid nls)"
    by blast
  from w have "win_unit w = uid" by (rule windows_of_unit)
  moreover have "k \<le> length (countable_lines nls)"
  proof (rule ccontr)
    assume "\<not> k \<le> length (countable_lines nls)"
    then have "windows_of k ui uid nls = []" by (simp add: windows_of_short)
    with w show False by simp
  qed
  ultimately show ?thesis using m by blast
qed

lemma ordered_pairs_members:
  "(a, b) \<in> set (ordered_pairs xs) \<Longrightarrow> a \<in> set xs \<and> b \<in> set xs"
  by (induction xs) auto

lemma deduplicate_subset:
  "set (deduplicate reported gs) \<subseteq> set reported \<union> set gs"
  by (induction reported gs rule: deduplicate.induct) auto

lemma extend_units:
  "m \<in> set (members (extend_pair a b)) \<Longrightarrow> span_unit m = win_unit a \<or> span_unit m = win_unit b"
  by (auto simp: extend_pair_def span_of_def Let_def)

lemma near_group_units:
  "m \<in> set (members (near_group sim a b)) \<Longrightarrow> span_unit m = win_unit a \<or> span_unit m = win_unit b"
  by (auto simp: near_group_def span_of_def)

lemma aggregate_units:
  assumes "g \<in> set (aggregate ws)" and "m \<in> set (members g)"
  shows "\<exists>w \<in> set ws. span_unit m = win_unit w"
proof -
  from assms(1) deduplicate_subset [of "[]"] obtain a b
    where p: "(a, b) \<in> set (ordered_pairs ws)" and g: "g = extend_pair a b"
    by (fastforce simp: aggregate_def)
  from p have "a \<in> set ws" "b \<in> set ws" by (auto dest: ordered_pairs_members)
  with extend_units [of m a b] assms(2) g show ?thesis by blast
qed

lemma score_units:
  assumes "g \<in> set (score sim t ws)" and "m \<in> set (members g)"
  shows "\<exists>w \<in> set ws. span_unit m = win_unit w"
proof -
  from assms(1) obtain a b
    where p: "(a, b) \<in> set (ordered_pairs ws)" and g: "g = near_group sim a b"
    by (auto simp: score_def split: option.splits)
  from p have "a \<in> set ws" "b \<in> set ws" by (auto dest: ordered_pairs_members)
  with near_group_units [of m sim a b] assms(2) g show ?thesis by blast
qed

lemma cap_groups_subset: "set (fst (cap_groups c gs)) \<subseteq> set gs"
  by (auto simp: cap_groups_def split: option.splits dest: in_set_takeD)

lemma found_groups_units:
  assumes "g \<in> set (fst (found_groups sim cfg ns))" and "m \<in> set (members g)"
  shows "\<exists>w \<in> set (index_units (nat (minBlockSize cfg)) ns). span_unit m = win_unit w"
proof -
  let ?ws = "index_units (nat (minBlockSize cfg)) ns"
  from assms(1) have "g \<in> set (fst (cap_groups (maxReportedGroups cfg) (aggregate ?ws)))
      \<or> g \<in> set (score sim (nearThreshold cfg) ?ws)"
    by (auto simp: found_groups_def Let_def split: prod.splits)
  then show ?thesis
  proof
    assume "g \<in> set (fst (cap_groups (maxReportedGroups cfg) (aggregate ?ws)))"
    with cap_groups_subset have "g \<in> set (aggregate ?ws)" by blast
    then show ?thesis using assms(2) by (rule aggregate_units)
  next
    assume "g \<in> set (score sim (nearThreshold cfg) ?ws)"
    then show ?thesis using assms(2) by (rule score_units)
  qed
qed

lemma found_groups_no_windows:
  "index_units (nat (minBlockSize cfg)) ns = [] \<Longrightarrow> found_groups sim cfg ns = ([], False)"
  by (simp add: found_groups_def aggregate_def score_def cap_groups_def split: option.splits)

lemma normalize_all_units:
  "normalize_all cfg us = Inr ns \<Longrightarrow> (uid, nls) \<in> set ns \<Longrightarrow>
     \<exists>u \<in> set us. unit_identifier u = uid \<and> normalize_unit cfg u = Inr nls"
proof (induction us arbitrary: ns)
  case Nil
  then show ?case by simp
next
  case (Cons v vs)
  from Cons.prems(1) obtain n r
    where v: "normalize_unit cfg v = Inr n" and r: "normalize_all cfg vs = Inr r"
      and ns: "ns = (unit_identifier v, n) # r"
    by (auto split: sum.splits)
  from Cons.prems(2) ns have "(uid, nls) = (unit_identifier v, n) \<or> (uid, nls) \<in> set r"
    by simp
  then show ?case
  proof
    assume "(uid, nls) = (unit_identifier v, n)"
    with v show ?thesis by simp
  next
    assume "(uid, nls) \<in> set r"
    with Cons.IH [OF r] show ?thesis by auto
  qed
qed

lemma normalize_all_total:
  "\<forall>u \<in> set us. \<exists>nls. normalize_unit cfg u = Inr nls \<Longrightarrow> \<exists>ns. normalize_all cfg us = Inr ns"
  by (induction us) auto

lemma normalize_lines_total:
  "None \<notin> set ls \<Longrightarrow> \<exists>r. normalize_lines cfg uid n ls = Inr r"
proof (induction ls arbitrary: n)
  case Nil
  then show ?case by simp
next
  case (Cons l ls)
  then obtain s where l: "l = Some s" by (cases l) auto
  from Cons.prems have "None \<notin> set ls" by simp
  then obtain r where "normalize_lines cfg uid (Suc n) ls = Inr r"
    using Cons.IH by blast
  with l show ?case by simp
qed

lemma well_formed_run:
  assumes "valid_config cfg" and "\<forall>v \<in> set us. None \<notin> set (raw_lines v)"
  shows "\<exists>r. analyse sim cfg us = Inr r"
proof -
  from assms(2) have "\<forall>v \<in> set us. \<exists>nls. normalize_unit cfg v = Inr nls"
    by (simp add: normalize_unit_def normalize_lines_total)
  then obtain ns where "normalize_all cfg us = Inr ns"
    using normalize_all_total by blast
  with assms(1) show ?thesis
    by (simp add: analyse_def Let_def split: prod.splits)
qed

lemma too_short_iff:
  "too_short cfg u \<longleftrightarrow>
     (\<exists>nls. normalize_unit cfg u = Inr nls \<and> int (length (countable_lines nls)) < minBlockSize cfg)"
  by (auto simp: too_short_def split: sum.splits)

lemma report_member_has_window:
  assumes "analyse sim cfg us = Inr r" and "g \<in> set (groups r)" and "m \<in> set (members g)"
  shows "\<exists>u \<in> set us. unit_identifier u = span_unit m \<and> \<not> too_short cfg u"
proof -
  from assms(1) obtain ns
    where v: "valid_config cfg" and ns: "normalize_all cfg us = Inr ns"
      and r: "groups r = order_groups (fst (found_groups sim cfg ns))"
    by (auto simp: analyse_def Let_def split: if_splits sum.splits prod.splits)
  from assms(2) r have "g \<in> set (fst (found_groups sim cfg ns))"
    by (simp add: order_groups_def)
  from found_groups_units [OF this assms(3)] obtain w
    where w: "w \<in> set (index_units (nat (minBlockSize cfg)) ns)" and m: "span_unit m = win_unit w"
    by blast
  from index_units_unit [OF w] obtain nls
    where mem: "(win_unit w, nls) \<in> set ns"
      and len: "nat (minBlockSize cfg) \<le> length (countable_lines nls)"
    by blast
  from normalize_all_units [OF ns mem] obtain u
    where u: "u \<in> set us" "unit_identifier u = win_unit w" "normalize_unit cfg u = Inr nls"
    by blast
  from len have "\<not> int (length (countable_lines nls)) < minBlockSize cfg" by linarith
  with u(3) have "\<not> too_short cfg u" by (simp add: too_short_def)
  with u m show ?thesis by auto
qed

lemma all_short_no_windows:
  assumes "normalize_all cfg us = Inr ns" and "\<forall>u \<in> set us. too_short cfg u"
  shows "index_units (nat (minBlockSize cfg)) ns = []"
proof (rule ccontr)
  assume "index_units (nat (minBlockSize cfg)) ns \<noteq> []"
  then obtain w where w: "w \<in> set (index_units (nat (minBlockSize cfg)) ns)"
    by (cases "index_units (nat (minBlockSize cfg)) ns") auto
  from index_units_unit [OF w] obtain nls
    where mem: "(win_unit w, nls) \<in> set ns"
      and len: "nat (minBlockSize cfg) \<le> length (countable_lines nls)"
    by blast
  from normalize_all_units [OF assms(1) mem] obtain u
    where u: "u \<in> set us" "normalize_unit cfg u = Inr nls"
    by blast
  from len have "\<not> int (length (countable_lines nls)) < minBlockSize cfg" by linarith
  with u(2) have "\<not> too_short cfg u" by (simp add: too_short_def)
  with assms(2) u(1) show False by blast
qed

subsection \<open>The order of the report\<close>

lemma precedes_key: "precedes g h \<longleftrightarrow> group_key g \<le> group_key h"
  by (auto simp: precedes_def group_key_def less_eq_prod_def)

lemma ties_key: "precedes g h \<and> precedes h g \<longleftrightarrow> group_key g = group_key h"
  by (auto simp: precedes_key)

lemma order_groups_sorted: "sorted_wrt precedes (order_groups gs)"
proof -
  have "sorted (map group_key (sort_key group_key gs))"
    by (rule sorted_sort_key)
  then have "sorted_wrt (\<lambda>g h. group_key g \<le> group_key h) (sort_key group_key gs)"
    by (simp add: sorted_wrt_map)
  moreover have "(\<lambda>g h. group_key g \<le> group_key h) = precedes"
    by (intro ext) (simp add: precedes_key)
  ultimately show ?thesis by (simp add: order_groups_def)
qed

lemma order_groups_stable:
  "filter (\<lambda>h. precedes g h \<and> precedes h g) (order_groups gs) =
   filter (\<lambda>h. precedes g h \<and> precedes h g) gs"
proof -
  have "filter (\<lambda>h. group_key h = group_key g) (sort_key group_key gs) =
        filter (\<lambda>h. group_key h = group_key g) gs"
    by (rule sort_key_stable)
  moreover have "(\<lambda>h. precedes g h \<and> precedes h g) = (\<lambda>h. group_key h = group_key g)"
    by (intro ext) (auto simp: ties_key)
  ultimately show ?thesis by (simp add: order_groups_def)
qed

lemma count_insort_key: "count_list (insort_key f x xs) y = count_list (x # xs) y"
  by (induction xs) auto

lemma count_sort_key: "count_list (sort_key f xs) y = count_list xs y"
  by (induction xs) (auto simp: count_insort_key)

subsection \<open>The sample run\<close>

lemma sample_run: "analyse line_overlap default_config sample_units = Inr sample_report"
  by code_simp

lemma sample_short_unit: "too_short default_config (unit_of ''c'' [''x'', ''y''])"
  by code_simp

lemma default_config_valid: "valid_config default_config"
  by (simp add: valid_config_def default_config_def)

subsection \<open>The claims about the engine\<close>

text \<open>
  Claim C4. For every input and configuration, the sequence of MatchGroups a run returns
  is sorted first by descending match length, then by ascending SourceUnit identifier
  of the first occurrence, then by ascending start line, and the ordering is stable. The
  returned groups are sorted with respect to \<open>precedes\<close>; they are the groups the
  stages found, each as often as it was found; and the groups that tie with any given
  group (same length, same first unit, same start line) stand in the order in which the
  stages found them.
\<close>

theorem report_is_ordered_and_stable:
  assumes "analyse sim cfg us = Inr r"
  shows "sorted_wrt precedes (groups r)
    \<and> (\<exists>ns. normalize_all cfg us = Inr ns
         \<and> (\<forall>g. count_list (groups r) g = count_list (fst (found_groups sim cfg ns)) g)
         \<and> (\<forall>g. filter (\<lambda>h. precedes g h \<and> precedes h g) (groups r) =
                 filter (\<lambda>h. precedes g h \<and> precedes h g) (fst (found_groups sim cfg ns))))"
proof -
  from assms obtain ns
    where ns: "normalize_all cfg us = Inr ns"
      and r: "groups r = order_groups (fst (found_groups sim cfg ns))"
    by (auto simp: analyse_def Let_def split: if_splits sum.splits prod.splits)
  have "sorted_wrt precedes (groups r)"
    unfolding r by (rule order_groups_sorted)
  moreover have "\<forall>g. count_list (groups r) g = count_list (fst (found_groups sim cfg ns)) g"
    unfolding r by (simp add: order_groups_def count_sort_key)
  moreover have "\<forall>g. filter (\<lambda>h. precedes g h \<and> precedes h g) (groups r) =
                 filter (\<lambda>h. precedes g h \<and> precedes h g) (fst (found_groups sim cfg ns))"
    unfolding r by (simp add: order_groups_stable)
  ultimately show ?thesis using ns by blast
qed

theorem report_is_ordered_and_stable_witness:
  "analyse line_overlap default_config sample_units = Inr sample_report
   \<and> sorted_wrt precedes (groups sample_report)
   \<and> map match_length (groups sample_report) = [4, 3, 3, 3]
   \<and> (\<exists>ns. normalize_all default_config sample_units = Inr ns
        \<and> (\<forall>g. count_list (groups sample_report) g =
                count_list (fst (found_groups line_overlap default_config ns)) g)
        \<and> (\<forall>g. filter (\<lambda>h. precedes g h \<and> precedes h g) (groups sample_report) =
                filter (\<lambda>h. precedes g h \<and> precedes h g)
                  (fst (found_groups line_overlap default_config ns))))"
proof -
  have "map match_length (groups sample_report) = [4, 3, 3, 3]"
    by (simp add: sample_report_def match_length_def)
  with report_is_ordered_and_stable [OF sample_run] sample_run show ?thesis
    by simp
qed

text \<open>
  Claim C6. When a SourceUnit of the input has a null line where text was expected, the
  run aborts and returns an error, never a report, so no partial list of MatchGroups is
  produced. The Normalizing stage fails with \<open>MalformedInput\<close> and no later stage
  runs; the error returned is \<open>MalformedInput\<close>, unless the configuration is invalid,
  which fails fast with \<open>InvalidConfiguration\<close> before any unit is read.
\<close>

theorem malformed_input_aborts_without_partial_result:
  assumes "u \<in> set us" and "None \<in> set (raw_lines u)"
  shows "analyse sim cfg us =
           Inl (if valid_config cfg then MalformedInput else InvalidConfiguration)
         \<and> (\<forall>r. analyse sim cfg us \<noteq> Inr r)
         \<and> normalize_all cfg us = Inl MalformedInput"
  using normalize_all_null [OF assms, of cfg] by (simp add: analyse_def)

theorem malformed_input_aborts_without_partial_result_witness:
  "null_unit \<in> set (sample_units @ [null_unit])
   \<and> None \<in> set (raw_lines null_unit)
   \<and> valid_config default_config
   \<and> analyse line_overlap default_config (sample_units @ [null_unit]) = Inl MalformedInput
   \<and> (\<forall>r. analyse line_overlap default_config (sample_units @ [null_unit]) \<noteq> Inr r)
   \<and> normalize_all default_config (sample_units @ [null_unit]) = Inl MalformedInput"
proof -
  have h1: "null_unit \<in> set (sample_units @ [null_unit])" by simp
  have h2: "None \<in> set (raw_lines null_unit)" by (simp add: null_unit_def)
  from malformed_input_aborts_without_partial_result [OF h1 h2, of line_overlap default_config]
  show ?thesis using h1 h2 default_config_valid by simp
qed

text \<open>
  Claim C7. Under every valid configuration, an input with zero SourceUnits, a
  SourceUnit with no lines, and SourceUnits with fewer normalizable lines than
  \<open>minBlockSize\<close> give the empty result and not an error. A unit that is too short has
  zero windows; an input all of whose units are too short gives the empty report; an
  input without null lines, short units or not, gives a report and no error; and in any
  report, no member of any MatchGroup lies in a unit whose identifier belongs to
  too-short units only.
\<close>

theorem too_few_lines_give_empty_result:
  assumes "valid_config cfg"
  shows "analyse sim cfg [] = Inr empty_report
    \<and> analyse sim cfg [\<lparr>unit_identifier = name, raw_lines = []\<rparr>] = Inr empty_report
    \<and> (too_short cfg u \<longrightarrow>
         (\<exists>nls. normalize_unit cfg u = Inr nls
            \<and> windows_of (nat (minBlockSize cfg)) ui (unit_identifier u) nls = []))
    \<and> ((\<forall>v \<in> set us. too_short cfg v) \<longrightarrow> analyse sim cfg us = Inr empty_report)
    \<and> ((\<forall>v \<in> set us. None \<notin> set (raw_lines v)) \<longrightarrow> (\<exists>r'. analyse sim cfg us = Inr r'))
    \<and> (analyse sim cfg us = Inr r \<and> (\<forall>v \<in> set us. unit_identifier v = unit_identifier u \<longrightarrow> too_short cfg v)
         \<longrightarrow> (\<forall>g \<in> set (groups r). \<forall>m \<in> set (members g). span_unit m \<noteq> unit_identifier u))"
proof -
  have all_short: "analyse sim cfg vs = Inr empty_report" if s: "\<forall>v \<in> set vs. too_short cfg v" for vs
  proof -
    from s have "\<forall>v \<in> set vs. \<exists>nls. normalize_unit cfg v = Inr nls"
      by (auto simp: too_short_iff)
    then obtain ns where ns: "normalize_all cfg vs = Inr ns"
      using normalize_all_total by blast
    from all_short_no_windows [OF ns s] have "found_groups sim cfg ns = ([], False)"
      by (rule found_groups_no_windows)
    with ns assms show ?thesis
      by (simp add: analyse_def order_groups_def empty_report_def)
  qed
  have one: "analyse sim cfg [] = Inr empty_report"
    using all_short [of "[]"] by simp
  have empty_unit: "too_short cfg \<lparr>unit_identifier = name, raw_lines = []\<rparr>"
    using assms by (simp add: too_short_def normalize_unit_def countable_lines_def valid_config_def)
  have two: "analyse sim cfg [\<lparr>unit_identifier = name, raw_lines = []\<rparr>] = Inr empty_report"
    using all_short [of "[\<lparr>unit_identifier = name, raw_lines = []\<rparr>]"] empty_unit by simp
  have three: "too_short cfg u \<longrightarrow>
         (\<exists>nls. normalize_unit cfg u = Inr nls
            \<and> windows_of (nat (minBlockSize cfg)) ui (unit_identifier u) nls = [])"
  proof
    assume "too_short cfg u"
    then obtain nls where n: "normalize_unit cfg u = Inr nls"
      and l: "int (length (countable_lines nls)) < minBlockSize cfg"
      by (auto simp: too_short_iff)
    from l have "length (countable_lines nls) < nat (minBlockSize cfg)" by linarith
    then have "windows_of (nat (minBlockSize cfg)) ui (unit_identifier u) nls = []"
      by (rule windows_of_short)
    with n show "\<exists>nls. normalize_unit cfg u = Inr nls
            \<and> windows_of (nat (minBlockSize cfg)) ui (unit_identifier u) nls = []"
      by blast
  qed
  have four: "(\<forall>v \<in> set us. too_short cfg v) \<longrightarrow> analyse sim cfg us = Inr empty_report"
    using all_short by blast
  have five: "analyse sim cfg us = Inr r \<and> (\<forall>v \<in> set us. unit_identifier v = unit_identifier u \<longrightarrow> too_short cfg v)
         \<longrightarrow> (\<forall>g \<in> set (groups r). \<forall>m \<in> set (members g). span_unit m \<noteq> unit_identifier u)"
    using report_member_has_window [of sim cfg us r] by metis
  have six: "(\<forall>v \<in> set us. None \<notin> set (raw_lines v)) \<longrightarrow> (\<exists>r'. analyse sim cfg us = Inr r')"
    using well_formed_run [OF assms] by blast
  from one two three four five six show ?thesis by blast
qed

theorem too_few_lines_give_empty_result_witness:
  "valid_config default_config
   \<and> too_short default_config (unit_of ''c'' [''x'', ''y''])
   \<and> analyse line_overlap default_config [] = Inr empty_report
   \<and> analyse line_overlap default_config [\<lparr>unit_identifier = ''e'', raw_lines = []\<rparr>] = Inr empty_report
   \<and> (\<exists>nls. normalize_unit default_config (unit_of ''c'' [''x'', ''y'']) = Inr nls
         \<and> windows_of 3 3 ''c'' nls = [])
   \<and> analyse line_overlap default_config [unit_of ''c'' [''x'', ''y'']] = Inr empty_report
   \<and> analyse line_overlap default_config sample_units = Inr sample_report
   \<and> list_all (\<lambda>g. list_all (\<lambda>m. span_unit m \<noteq> ''c'') (members g)) (groups sample_report)"
proof -
  let ?c = "unit_of ''c'' [''x'', ''y'']"
  have k: "nat (minBlockSize default_config) = 3" and i: "unit_identifier ?c = ''c''"
    by (simp_all add: default_config_def unit_of_def)
  have only: "\<forall>v \<in> set sample_units. unit_identifier v = unit_identifier ?c \<longrightarrow> too_short default_config v"
    using sample_short_unit by (simp add: sample_units_def unit_of_def)
  have alone: "\<forall>v \<in> set [?c]. too_short default_config v"
    using sample_short_unit by simp
  from too_few_lines_give_empty_result [OF default_config_valid,
      of line_overlap "''e''" ?c 3 sample_units sample_report]
  have a: "analyse line_overlap default_config [] = Inr empty_report"
    and b: "analyse line_overlap default_config [\<lparr>unit_identifier = ''e'', raw_lines = []\<rparr>] = Inr empty_report"
    and c: "\<exists>nls. normalize_unit default_config ?c = Inr nls \<and> windows_of 3 3 ''c'' nls = []"
    and e: "\<forall>g \<in> set (groups sample_report). \<forall>m \<in> set (members g). span_unit m \<noteq> ''c''"
    using sample_short_unit sample_run only by (simp_all add: k i)
  from too_few_lines_give_empty_result [OF default_config_valid,
      of line_overlap "''e''" ?c 3 "[?c]" sample_report]
  have d: "analyse line_overlap default_config [?c] = Inr empty_report"
    using alone by simp
  from e have "list_all (\<lambda>g. list_all (\<lambda>m. span_unit m \<noteq> ''c'') (members g)) (groups sample_report)"
    by (simp add: list_all_iff)
  with a b c d show ?thesis
    using default_config_valid sample_short_unit sample_run by simp
qed


section \<open>Properties of the fixture\<close>

text \<open>
  Claim C8. In the fixture the comment line \<^verbatim>\<open># This block will be repeated in other
  functions\<close> stands immediately before the three print lines in both \<open>function_one\<close> and
  \<open>function_two\<close>. With blank lines ignored and comment lines kept, the region the two
  functions share verbatim is therefore four consecutive lines, 8 to 11 and 23 to 26: the
  two runs are the first four lines of the body of \<open>function_one\<close> and the third to sixth
  of the body of \<open>function_two\<close>, they hold the same text, and they cannot be longer,
  since the non-blank lines before them (7 and 21) differ and so do the non-blank lines
  after them (13 and 28).
\<close>

theorem common_block_spans_four_lines:
  \<open>block 8 4 =
     [(8, ''    # This block will be repeated in other functions''),
      (9, ''    print("This is the first line in a block")''),
      (10, ''    print("This is the second line in a block")''),
      (11, ''    print("This is the third line in a block")'')]
   \<and> block 23 4 =
     [(23, ''    # This block will be repeated in other functions''),
      (24, ''    print("This is the first line in a block")''),
      (25, ''    print("This is the second line in a block")''),
      (26, ''    print("This is the third line in a block")'')]
   \<and> take 4 (body_of ''function_one'') = block 8 4
   \<and> take 4 (drop 2 (body_of ''function_two'')) = block 23 4
   \<and> map snd (block 8 4) = map snd (block 23 4)
   \<and> map fst (block 7 2) = [7, 8] \<and> map fst (block 21 2) = [21, 23]
   \<and> map snd (block 7 1) \<noteq> map snd (block 21 1)
   \<and> map fst (block 11 2) = [11, 13] \<and> map fst (block 26 2) = [26, 28]
   \<and> map snd (block 13 1) \<noteq> map snd (block 28 1)\<close>
  by code_simp

text \<open>
  Claim C9. The variant block of \<open>function_three\<close> (lines 39 to 41) has the first two
  lines of the common block (lines 9 to 11) and a different third line. The two 3-line
  blocks agree at exactly 2 of their 3 positions, and exactly 2 distinct lines of one
  occur in the other: an overlap of \<open>2/3\<close>, which is 0.67 to two decimals.
\<close>

theorem variant_block_shares_two_of_three_lines:
  \<open>block 9 3 =
     [(9, ''    print("This is the first line in a block")''),
      (10, ''    print("This is the second line in a block")''),
      (11, ''    print("This is the third line in a block")'')]
   \<and> block 39 3 =
     [(39, ''    print("This is the first line in a block")''),
      (40, ''    print("This is the second line in a block")''),
      (41, ''    print("This line is different in function_three")'')]
   \<and> take 3 (drop 1 (body_of ''function_one'')) = block 9 3
   \<and> take 3 (drop 6 (body_of ''function_three'')) = block 39 3
   \<and> map snd (block 39 2) = map snd (block 9 2)
   \<and> map snd (block 41 1) \<noteq> map snd (block 11 1)
   \<and> same_at (map snd (block 9 3)) (map snd (block 39 3)) = 2
   \<and> shared (map snd (block 9 3)) (map snd (block 39 3)) = 2
   \<and> length (block 9 3) = 3 \<and> length (block 39 3) = 3
   \<and> (of_nat (same_at (map snd (block 9 3)) (map snd (block 39 3))) /
        of_nat (length (block 9 3)) :: rat) = 2 / 3
   \<and> \<bar>of_nat (same_at (map snd (block 9 3)) (map snd (block 39 3))) /
        of_nat (length (block 9 3)) - (67 / 100 :: rat)\<bar> < 1 / 200\<close>
  by code_simp

text \<open>
  Claim C10. Each of the three functions ends with the same two lines, the comment
  \<^verbatim>\<open># This block is repeated in all functions\<close> and the \<^verbatim>\<open>return\<close> line: lines 16 and 17,
  28 and 29, 43 and 44. The run is 2 lines long, below the default \<open>minBlockSize\<close> of 3,
  and it is no longer in any two of the functions: the non-blank lines before the three
  tails (14, 26, 41) are pairwise different, and so are the lines after them (19, 31, 46).
\<close>

theorem common_tail_is_two_lines:
  \<open>map (\<lambda>f. last_lines 2 (body_of f)) [''function_one'', ''function_two'', ''function_three''] =
     [[(16, ''    # This block is repeated in all functions''),
       (17, ''    return "All functions return this exact string"'')],
      [(28, ''    # This block is repeated in all functions''),
       (29, ''    return "All functions return this exact string"'')],
      [(43, ''    # This block is repeated in all functions''),
       (44, ''    return "All functions return this exact string"'')]]
   \<and> block 16 2 = last_lines 2 (body_of ''function_one'')
   \<and> block 28 2 = last_lines 2 (body_of ''function_two'')
   \<and> block 43 2 = last_lines 2 (body_of ''function_three'')
   \<and> map snd (block 16 2) = map snd (block 28 2)
   \<and> map snd (block 28 2) = map snd (block 43 2)
   \<and> int (length (block 16 2)) < minBlockSize default_config
   \<and> minBlockSize default_config = 3
   \<and> map fst (block 14 3) = [14, 16, 17] \<and> map fst (block 26 3) = [26, 28, 29]
   \<and> map fst (block 41 3) = [41, 43, 44]
   \<and> distinct [map snd (block 14 1), map snd (block 26 1), map snd (block 41 1)]
   \<and> map fst (block 16 3) = [16, 17, 19] \<and> map fst (block 28 3) = [28, 29, 31]
   \<and> map fst (block 43 3) = [43, 44, 46]
   \<and> distinct [map snd (block 19 1), map snd (block 31 1), map snd (block 46 1)]\<close>
  by code_simp

end
